theory Spec2Isabelle
  imports Main "HOL-Library.AList"
begin

section \<open>JavaScript values\<close>

text \<open>
  The extension stores plain JSON-like objects and inspects them dynamically (\<open>typeof\<close>,
  truthiness, \<open>Array.isArray\<close>), so records are modelled as untyped values. An object is
  the list of its own properties in insertion order, which is the order \<open>Object.entries\<close>
  and the spread operator enumerate (property names that are array indices, which
  JavaScript enumerates first, do not occur among the field names and the
  \<open>prompt_...\<close> identifiers of this program). A finite number is represented by an
  integer; the code only inspects the type, the truthiness and the sign of the numbers
  it stores. \<open>NaN\<close> is a value of its own.
\<close>

datatype jsval =
    JUndefined
  | JNull
  | JBool bool
  | JNum int
  | JNaN
  | JStr string
  | JArr "jsval list"
  | JObj "(string \<times> jsval) list"

text \<open>Thrown values: a \<open>TypeError\<close> raised by the engine (with its message) or
  \<open>new Error(message)\<close> thrown by the code. \<open>error.message\<close> is a string for both.\<close>

datatype error = TypeError string | Error string

fun error_message :: "error \<Rightarrow> string" where
  "error_message (TypeError m) = m"
| "error_message (Error m) = m"

fun truthy :: "jsval \<Rightarrow> bool" where
  "truthy JUndefined = False"
| "truthy JNull = False"
| "truthy (JBool b) = b"
| "truthy (JNum n) = (n \<noteq> 0)"
| "truthy JNaN = False"
| "truthy (JStr s) = (s \<noteq> [])"
| "truthy (JArr xs) = True"
| "truthy (JObj kvs) = True"

fun typeof :: "jsval \<Rightarrow> string" where
  "typeof JUndefined = ''undefined''"
| "typeof JNull = ''object''"
| "typeof (JBool b) = ''boolean''"
| "typeof (JNum n) = ''number''"
| "typeof JNaN = ''number''"
| "typeof (JStr s) = ''string''"
| "typeof (JArr xs) = ''object''"
| "typeof (JObj kvs) = ''object''"

fun nullish :: "jsval \<Rightarrow> bool" where
  "nullish JUndefined = True"
| "nullish JNull = True"
| "nullish v = False"

fun isArray :: "jsval \<Rightarrow> bool" where
  "isArray (JArr xs) = True"
| "isArray v = False"

text \<open>\<open>a || b\<close> on values.\<close>

definition js_or :: "jsval \<Rightarrow> jsval \<Rightarrow> jsval" where
  "js_or a b = (if truthy a then a else b)"

text \<open>
  \<open>v.k\<close> for a value that is neither \<open>undefined\<close> nor \<open>null\<close>: the own property of an
  object, \<open>undefined\<close> when it is absent. The names read by this program (\<open>id\<close>,
  \<open>name\<close>, \<open>metadata\<close>, \<open>tags\<close>, ...) are not properties of a primitive or of an array,
  which therefore read as \<open>undefined\<close>. Reading a property of \<open>undefined\<close> or \<open>null\<close>
  throws; every function below tests \<^const>\<open>nullish\<close> where the source would throw.
\<close>

fun js_get :: "jsval \<Rightarrow> string \<Rightarrow> jsval" where
  "js_get (JObj kvs) k = (case map_of kvs k of None \<Rightarrow> JUndefined | Some v \<Rightarrow> v)"
| "js_get v k = JUndefined"

definition read_error :: "string \<Rightarrow> error" where
  "read_error k = TypeError (''Cannot read properties of undefined (reading '' @ k @ '')'')"

definition get_prop :: "jsval \<Rightarrow> string \<Rightarrow> error + jsval" where
  "get_prop v k = (if nullish v then Inl (read_error k) else Inr (js_get v k))"

text \<open>Optional chaining \<open>v?.k\<close>.\<close>

definition opt_prop :: "jsval \<Rightarrow> string \<Rightarrow> jsval" where
  "opt_prop v k = (if nullish v then JUndefined else js_get v k)"

subsection \<open>Numbers and strings\<close>

definition digit_char :: "nat \<Rightarrow> char" where
  "digit_char d = ''0123456789'' ! (d mod 10)"

function show_nat :: "nat \<Rightarrow> string" where
  "show_nat n = (if n < 10 then [digit_char n] else show_nat (n div 10) @ [digit_char (n mod 10)])"
  by pat_completeness auto
termination
  by (relation "measure id") auto

declare show_nat.simps [simp del]

definition show_int :: "int \<Rightarrow> string" where
  "show_int i = (if i < 0 then CHR ''-'' # show_nat (nat (- i)) else show_nat (nat i))"

fun join_with :: "string \<Rightarrow> string list \<Rightarrow> string" where
  "join_with sep [] = []"
| "join_with sep [x] = x"
| "join_with sep (x # y # ys) = x @ sep @ join_with sep (y # ys)"

text \<open>\<open>String(v)\<close>, as template literals and property keys apply it.\<close>

fun js_to_string :: "jsval \<Rightarrow> string" where
  "js_to_string JUndefined = ''undefined''"
| "js_to_string JNull = ''null''"
| "js_to_string (JBool b) = (if b then ''true'' else ''false'')"
| "js_to_string (JNum n) = show_int n"
| "js_to_string JNaN = ''NaN''"
| "js_to_string (JStr s) = s"
| "js_to_string (JArr xs) =
     join_with '','' (map (\<lambda>x. if nullish x then [] else js_to_string x) xs)"
| "js_to_string (JObj kvs) = ''[object Object]''"

text \<open>\<open>String.prototype.trim\<close> and \<open>toLowerCase\<close> on the ASCII range.\<close>

definition is_space :: "char \<Rightarrow> bool" where
  "is_space c = (c \<in> set [CHR '' '', CHR 0x09, CHR 0x0A, CHR 0x0B, CHR 0x0C, CHR 0x0D])"

definition js_trim :: "string \<Rightarrow> string" where
  "js_trim s = rev (dropWhile is_space (rev (dropWhile is_space s)))"

definition lower_char :: "char \<Rightarrow> char" where
  "lower_char c =
     (let n = (of_char c :: nat) in if 65 \<le> n \<and> n \<le> 90 then char_of (n + 32) else c)"

definition toLowerCase :: "string \<Rightarrow> string" where
  "toLowerCase s = map lower_char s"

text \<open>\<open>s.includes(t)\<close>: \<open>t\<close> occurs in \<open>s\<close> as a contiguous substring.\<close>

definition starts_with :: "string \<Rightarrow> string \<Rightarrow> bool" where
  "starts_with s p = (take (length p) s = p)"

fun str_includes :: "string \<Rightarrow> string \<Rightarrow> bool" where
  "str_includes [] t = (t = [])"
| "str_includes (c # cs) t = (starts_with (c # cs) t \<or> str_includes cs t)"

text \<open>Strict equality \<open>===\<close> and the \<open>SameValueZero\<close> comparison of \<open>Array.includes\<close>.
  Two objects or arrays are equal only when they are the same reference; the values
  compared below come from different sources (a record and a filter specification, a
  record and a literal), so such a comparison is false.\<close>

fun strict_eq :: "jsval \<Rightarrow> jsval \<Rightarrow> bool" where
  "strict_eq JUndefined JUndefined = True"
| "strict_eq JNull JNull = True"
| "strict_eq (JBool a) (JBool b) = (a = b)"
| "strict_eq (JNum a) (JNum b) = (a = b)"
| "strict_eq (JStr a) (JStr b) = (a = b)"
| "strict_eq a b = False"

definition same_value_zero :: "jsval \<Rightarrow> jsval \<Rightarrow> bool" where
  "same_value_zero a b = (strict_eq a b \<or> (a = JNaN \<and> b = JNaN))"

definition arr_includes :: "jsval list \<Rightarrow> jsval \<Rightarrow> bool" where
  "arr_includes xs v = list_ex (\<lambda>x. same_value_zero x v) xs"

subsection \<open>Objects\<close>

text \<open>
  Enumerable own properties of a value, as \<open>Object.entries\<close> and \<open>{...v}\<close> see them: the
  properties of an object, the indexed elements of an array or of a string, nothing for
  the other values (including \<open>undefined\<close> and \<open>null\<close> under the spread operator).
\<close>

definition indexed :: "jsval list \<Rightarrow> (string \<times> jsval) list" where
  "indexed xs = zip (map show_nat [0..<length xs]) xs"

fun own_entries :: "jsval \<Rightarrow> (string \<times> jsval) list" where
  "own_entries (JObj kvs) = kvs"
| "own_entries (JArr xs) = indexed xs"
| "own_entries (JStr s) = indexed (map (\<lambda>c. JStr [c]) s)"
| "own_entries v = []"

text \<open>\<open>obj[k] = v\<close>: an existing property keeps its place, a new one goes last.\<close>

definition obj_set :: "string \<Rightarrow> jsval \<Rightarrow> (string \<times> jsval) list \<Rightarrow> (string \<times> jsval) list" where
  "obj_set k v kvs = AList.update k v kvs"

text \<open>\<open>{...base, ...v}\<close>: the properties of \<open>v\<close> assigned one after the other.\<close>

definition spread :: "(string \<times> jsval) list \<Rightarrow> jsval \<Rightarrow> (string \<times> jsval) list" where
  "spread base v = foldl (\<lambda>acc (k, x). obj_set k x acc) base (own_entries v)"

section \<open>The host environment\<close>

text \<open>
  What the code obtains from the JavaScript engine and the host rather than from this
  repository: \<open>Date\<close> parsing (\<open>new Date(s).getTime()\<close>, \<open>None\<close> for an invalid date) and
  \<open>toISOString\<close>, \<open>String.prototype.localeCompare\<close>, \<open>JSON.parse\<close> (\<open>None\<close> when it throws),
  the current time as \<open>new Date().toISOString()\<close> returns it and the identifier that
  \<open>generatePromptId()\<close> draws from the clock and the random generator. One operation is
  modelled as reading the clock and the generator once. The last field is the
  \<open>max_prompts\<close> entry of the loaded settings (\<open>extensionSettings.settings?.max_prompts\<close>),
  a number when it is present.
\<close>

record env =
  date_parse :: "string \<Rightarrow> int option"
  to_iso :: "int \<Rightarrow> string"
  locale_compare :: "string \<Rightarrow> string \<Rightarrow> int"
  json_parse :: "string \<Rightarrow> jsval option"
  now_iso :: string
  fresh_id :: string
  max_prompts :: "int option"

section \<open>Validation (PromptDataManager.validatePromptData, isValidISODate)\<close>

text \<open>The regular expression
  \<^verbatim>\<open>/^\d{4}-\d{2}-\d{2}T\d{2}:\d{2}:\d{2}(\.\d{3})?Z?$/\<close>: a pattern is a list of
  digit classes and literal characters, matched against a prefix of the string.\<close>

datatype pat = Digit | Lit char

definition is_digit :: "char \<Rightarrow> bool" where
  "is_digit c = (let n = (of_char c :: nat) in 48 \<le> n \<and> n \<le> 57)"

fun match_prefix :: "pat list \<Rightarrow> string \<Rightarrow> string option" where
  "match_prefix [] s = Some s"
| "match_prefix (p # ps) [] = None"
| "match_prefix (Digit # ps) (c # cs) = (if is_digit c then match_prefix ps cs else None)"
| "match_prefix (Lit l # ps) (c # cs) = (if c = l then match_prefix ps cs else None)"

definition date_time_pat :: "pat list" where
  "date_time_pat =
     [Digit, Digit, Digit, Digit, Lit (CHR ''-''), Digit, Digit, Lit (CHR ''-''), Digit, Digit,
      Lit (CHR ''T''), Digit, Digit, Lit (CHR '':''), Digit, Digit, Lit (CHR '':''), Digit, Digit]"

definition millis_pat :: "pat list" where
  "millis_pat = [Lit (CHR ''.''), Digit, Digit, Digit]"

definition optional_Z_end :: "string \<Rightarrow> bool" where
  "optional_Z_end r = (r = [] \<or> r = ''Z'')"

definition isoRegex :: "string \<Rightarrow> bool" where
  "isoRegex s =
     (case match_prefix date_time_pat s of
        None \<Rightarrow> False
      | Some r \<Rightarrow>
          (case match_prefix millis_pat r of
             Some r' \<Rightarrow> optional_Z_end r' \<or> optional_Z_end r
           | None \<Rightarrow> optional_Z_end r))"

text \<open>\<open>dateString.replace('Z', '')\<close> removes the first \<open>Z\<close>.\<close>

definition isValidISODate :: "env \<Rightarrow> jsval \<Rightarrow> bool" where
  "isValidISODate E dateString =
     (case dateString of
        JStr s \<Rightarrow>
          (if s = [] then False
           else (case date_parse E s of
                   None \<Rightarrow> False
                 | Some t \<Rightarrow> isoRegex s \<and> starts_with (to_iso E t) (remove1 (CHR ''Z'') s)))
      | _ \<Rightarrow> False)"

definition role_names :: "jsval list" where
  "role_names = [JStr ''user'', JStr ''assistant'', JStr ''system'']"

definition is_string :: "jsval \<Rightarrow> bool" where
  "is_string v = (typeof v = ''string'')"

definition is_boolean :: "jsval \<Rightarrow> bool" where
  "is_boolean v = (typeof v = ''boolean'')"

definition is_number :: "jsval \<Rightarrow> bool" where
  "is_number v = (typeof v = ''number'')"

text \<open>\<open>v.trim().length === 0\<close> for a string \<open>v\<close>.\<close>

fun blank :: "jsval \<Rightarrow> bool" where
  "blank (JStr s) = (js_trim s = [])"
| "blank v = False"

text \<open>\<open>v < 0\<close> for a number (false for \<open>NaN\<close>).\<close>

fun negative :: "jsval \<Rightarrow> bool" where
  "negative (JNum n) = (n < 0)"
| "negative v = False"

fun all_strings :: "jsval \<Rightarrow> bool" where
  "all_strings (JArr xs) = list_all is_string xs"
| "all_strings v = False"

definition check :: "bool \<Rightarrow> string \<Rightarrow> string list" where
  "check failed msg = (if failed then [msg] else [])"

definition metadata_errors :: "env \<Rightarrow> jsval \<Rightarrow> string list" where
  "metadata_errors E metadata =
     check (truthy (js_get metadata ''created_at'') \<and> \<not> isValidISODate E (js_get metadata ''created_at''))
       ''metadata.created_at must be a valid ISO date string'' @
     check (truthy (js_get metadata ''last_used'') \<and> \<not> isValidISODate E (js_get metadata ''last_used''))
       ''metadata.last_used must be a valid ISO date string'' @
     check (js_get metadata ''favorite'' \<noteq> JUndefined \<and> \<not> is_boolean (js_get metadata ''favorite''))
       ''metadata.favorite must be a boolean'' @
     check (js_get metadata ''usage_count'' \<noteq> JUndefined \<and>
            (\<not> is_number (js_get metadata ''usage_count'') \<or> negative (js_get metadata ''usage_count'')))
       ''metadata.usage_count must be a non-negative number'' @
     check (truthy (js_get metadata ''tags'') \<and>
            (\<not> isArray (js_get metadata ''tags'') \<or> \<not> all_strings (js_get metadata ''tags'')))
       ''metadata.tags must be an array of strings'' @
     check (js_get metadata ''source_preset'' \<noteq> JUndefined \<and> js_get metadata ''source_preset'' \<noteq> JNull \<and>
            \<not> is_string (js_get metadata ''source_preset''))
       ''metadata.source_preset must be a string or null''"

text \<open>The list \<open>errors\<close> that validatePromptData fills for a value that is not
  \<open>undefined\<close> or \<open>null\<close>, in the order of the checks.\<close>

definition validation_errors :: "env \<Rightarrow> jsval \<Rightarrow> string list" where
  "validation_errors E promptData =
     check (\<not> truthy (js_get promptData ''id'') \<or> \<not> is_string (js_get promptData ''id''))
       ''Prompt ID is required and must be a string'' @
     check (\<not> truthy (js_get promptData ''name'') \<or> \<not> is_string (js_get promptData ''name'') \<or>
            blank (js_get promptData ''name''))
       ''Prompt name is required and must be a non-empty string'' @
     check (\<not> truthy (js_get promptData ''content'') \<or> \<not> is_string (js_get promptData ''content'') \<or>
            blank (js_get promptData ''content''))
       ''Prompt content is required and must be a non-empty string'' @
     check (\<not> truthy (js_get promptData ''role'') \<or> \<not> arr_includes role_names (js_get promptData ''role''))
       ''Prompt role must be one of: user, assistant, system'' @
     check (js_get promptData ''system_prompt'' \<noteq> JUndefined \<and> \<not> is_boolean (js_get promptData ''system_prompt''))
       ''system_prompt must be a boolean'' @
     check (js_get promptData ''marker'' \<noteq> JUndefined \<and> \<not> is_boolean (js_get promptData ''marker''))
       ''marker must be a boolean'' @
     check (js_get promptData ''injection_position'' \<noteq> JUndefined \<and>
            \<not> is_number (js_get promptData ''injection_position''))
       ''injection_position must be a number'' @
     check (js_get promptData ''injection_depth'' \<noteq> JUndefined \<and>
            \<not> is_number (js_get promptData ''injection_depth''))
       ''injection_depth must be a number'' @
     check (js_get promptData ''injection_order'' \<noteq> JUndefined \<and>
            \<not> is_number (js_get promptData ''injection_order''))
       ''injection_order must be a number'' @
     check (js_get promptData ''forbid_overrides'' \<noteq> JUndefined \<and>
            \<not> is_boolean (js_get promptData ''forbid_overrides''))
       ''forbid_overrides must be a boolean'' @
     (if truthy (js_get promptData ''metadata'')
      then metadata_errors E (js_get promptData ''metadata'') else [])"

text \<open>validatePromptData returns \<open>{isValid, errors}\<close> with \<open>isValid = (errors.length === 0)\<close>;
  the model returns \<open>errors\<close>. Its first statement reads \<open>promptData.id\<close>, which throws
  for \<open>undefined\<close> and \<open>null\<close>.\<close>

definition validatePromptData :: "env \<Rightarrow> jsval \<Rightarrow> error + string list" where
  "validatePromptData E promptData =
     (if nullish promptData then Inl (read_error ''id'')
      else Inr (validation_errors E promptData))"

definition isValid :: "string list \<Rightarrow> bool" where
  "isValid errors = (errors = [])"

section \<open>A concrete host\<close>

text \<open>
  An instance of the environment for the concrete inputs below: a host in the UTC time
  zone whose \<open>Date\<close> understands the ISO date-time format (four-digit year; a string
  without \<open>Z\<close> is local time, which is UTC here), whose \<open>localeCompare\<close> compares
  ASCII strings letter by letter regardless of case and puts the lower-case string first
  among strings that differ in case only, and which is never handed JSON text.
\<close>

definition digit_val :: "char \<Rightarrow> nat" where
  "digit_val c = of_char c - 48"

definition number_of :: "string \<Rightarrow> nat" where
  "number_of s = foldl (\<lambda>n c. 10 * n + digit_val c) 0 s"

definition leap_year :: "int \<Rightarrow> bool" where
  "leap_year y = (y mod 4 = 0 \<and> (y mod 100 \<noteq> 0 \<or> y mod 400 = 0))"

definition days_in_month :: "int \<Rightarrow> int \<Rightarrow> int" where
  "days_in_month y m =
     (if m = 2 then (if leap_year y then 29 else 28)
      else if m = 4 \<or> m = 6 \<or> m = 9 \<or> m = 11 then 30 else 31)"

text \<open>Days between 1970-01-01 and a date of the proleptic Gregorian calendar, and back.\<close>

definition days_from_civil :: "int \<Rightarrow> int \<Rightarrow> int \<Rightarrow> int" where
  "days_from_civil y m d =
     (let y' = (if m \<le> 2 then y - 1 else y);
          era = y' div 400;
          yoe = y' - era * 400;
          doy = (153 * (if m > 2 then m - 3 else m + 9) + 2) div 5 + d - 1;
          doe = yoe * 365 + yoe div 4 - yoe div 100 + doy
      in era * 146097 + doe - 719468)"

definition civil_from_days :: "int \<Rightarrow> int \<times> int \<times> int" where
  "civil_from_days z =
     (let z' = z + 719468;
          era = z' div 146097;
          doe = z' - era * 146097;
          yoe = (doe - doe div 1460 + doe div 36524 - doe div 146096) div 365;
          doy = doe - (365 * yoe + yoe div 4 - yoe div 100);
          mp = (5 * doy + 2) div 153;
          d = doy - (153 * mp + 2) div 5 + 1;
          m = (if mp < 10 then mp + 3 else mp - 9);
          y = yoe + era * 400
      in (if m \<le> 2 then y + 1 else y, m, d))"

definition utc_parse :: "string \<Rightarrow> int option" where
  "utc_parse s =
     (if \<not> isoRegex s then None
      else
        let y = int (number_of (take 4 s));
            mo = int (number_of (take 2 (drop 5 s)));
            d = int (number_of (take 2 (drop 8 s)));
            h = int (number_of (take 2 (drop 11 s)));
            mi = int (number_of (take 2 (drop 14 s)));
            sec = int (number_of (take 2 (drop 17 s)));
            ms = (if take 1 (drop 19 s) = ''.'' then int (number_of (take 3 (drop 20 s))) else 0)
        in if 1 \<le> mo \<and> mo \<le> 12 \<and> 1 \<le> d \<and> d \<le> days_in_month y mo \<and>
              mi \<le> 59 \<and> sec \<le> 59 \<and> (h \<le> 23 \<or> (h = 24 \<and> mi = 0 \<and> sec = 0 \<and> ms = 0))
           then Some ((((days_from_civil y mo d * 24 + h) * 60 + mi) * 60 + sec) * 1000 + ms)
           else None)"

definition pad :: "nat \<Rightarrow> nat \<Rightarrow> string" where
  "pad w n = replicate (w - length (show_nat n)) (CHR ''0'') @ show_nat n"

definition year_string :: "int \<Rightarrow> string" where
  "year_string y =
     (if 0 \<le> y \<and> y \<le> 9999 then pad 4 (nat y)
      else (if y < 0 then ''-'' else ''+'') @ pad 6 (nat \<bar>y\<bar>))"

definition utc_iso :: "int \<Rightarrow> string" where
  "utc_iso t =
     (let r = t mod 86400000;
          (y, m, d) = civil_from_days (t div 86400000)
      in year_string y @ ''-'' @ pad 2 (nat m) @ ''-'' @ pad 2 (nat d) @ ''T'' @
         pad 2 (nat (r div 3600000)) @ '':'' @ pad 2 (nat (r div 60000 mod 60)) @ '':'' @
         pad 2 (nat (r div 1000 mod 60)) @ ''.'' @ pad 3 (nat (r mod 1000)) @ ''Z'')"

fun lex_compare :: "string \<Rightarrow> string \<Rightarrow> int" where
  "lex_compare [] [] = 0"
| "lex_compare [] (y # ys) = - 1"
| "lex_compare (x # xs) [] = 1"
| "lex_compare (x # xs) (y # ys) =
     (if (of_char x :: nat) < of_char y then - 1
      else if (of_char y :: nat) < of_char x then 1
      else lex_compare xs ys)"

definition collate :: "string \<Rightarrow> string \<Rightarrow> int" where
  "collate a b =
     (let c = lex_compare (toLowerCase a) (toLowerCase b)
      in if c \<noteq> 0 then c else lex_compare b a)"

definition utc_env :: env where
  "utc_env =
     \<lparr>date_parse = utc_parse, to_iso = utc_iso, locale_compare = collate,
      json_parse = (\<lambda>text. None), now_iso = ''2024-06-01T10:00:00.000Z'',
      fresh_id = ''prompt_1717236000000_k3j9x2a1b'', max_prompts = Some 1000\<rparr>"

section \<open>Complete records\<close>

text \<open>
  The shape createPromptData and saveCurrentPrompt give a record: the ten prompt fields and
  a \<open>metadata\<close> object with its six fields, each of the type validatePromptData asks
  for. \<open>last_used\<close> and \<open>source_preset\<close> are \<open>null\<close> when absent.
\<close>

record prompt_rec =
  p_id :: string
  p_name :: string
  p_content :: string
  p_role :: string
  p_system_prompt :: bool
  p_marker :: bool
  p_injection_position :: int
  p_injection_depth :: int
  p_injection_order :: int
  p_forbid_overrides :: bool
  m_created_at :: string
  m_last_used :: "string option"
  m_favorite :: bool
  m_usage_count :: int
  m_tags :: "string list"
  m_source_preset :: "string option"

definition str_or_null :: "string option \<Rightarrow> jsval" where
  "str_or_null x = (case x of None \<Rightarrow> JNull | Some s \<Rightarrow> JStr s)"

definition encode_metadata :: "prompt_rec \<Rightarrow> (string \<times> jsval) list" where
  "encode_metadata r =
     [(''created_at'', JStr (m_created_at r)),
      (''last_used'', str_or_null (m_last_used r)),
      (''favorite'', JBool (m_favorite r)),
      (''usage_count'', JNum (m_usage_count r)),
      (''tags'', JArr (map JStr (m_tags r))),
      (''source_preset'', str_or_null (m_source_preset r))]"

definition encode_fields :: "prompt_rec \<Rightarrow> (string \<times> jsval) list" where
  "encode_fields r =
     [(''id'', JStr (p_id r)),
      (''name'', JStr (p_name r)),
      (''content'', JStr (p_content r)),
      (''role'', JStr (p_role r)),
      (''system_prompt'', JBool (p_system_prompt r)),
      (''marker'', JBool (p_marker r)),
      (''injection_position'', JNum (p_injection_position r)),
      (''injection_depth'', JNum (p_injection_depth r)),
      (''injection_order'', JNum (p_injection_order r)),
      (''forbid_overrides'', JBool (p_forbid_overrides r))]"

definition encode :: "prompt_rec \<Rightarrow> jsval" where
  "encode r = JObj (encode_fields r @ [(''metadata'', JObj (encode_metadata r))])"

text \<open>Two records used as concrete inputs below.\<close>

definition greeting :: prompt_rec where
  "greeting =
     \<lparr>p_id = ''prompt_1'', p_name = ''Greeting'', p_content = ''Say hello'', p_role = ''user'',
      p_system_prompt = False, p_marker = False, p_injection_position = 0,
      p_injection_depth = 4, p_injection_order = 100, p_forbid_overrides = False,
      m_created_at = ''2024-01-01T00:00:00.000Z'', m_last_used = None, m_favorite = False,
      m_usage_count = 0, m_tags = [''a''], m_source_preset = Some ''Default''\<rparr>"

definition persona :: prompt_rec where
  "persona =
     \<lparr>p_id = ''prompt_2'', p_name = ''persona'', p_content = ''You are a pirate'', p_role = ''system'',
      p_system_prompt = True, p_marker = False, p_injection_position = 0,
      p_injection_depth = 4, p_injection_order = 100, p_forbid_overrides = False,
      m_created_at = ''2024-02-01T08:30:00.000Z'', m_last_used = Some ''2024-03-05T12:00:00.000Z'',
      m_favorite = True, m_usage_count = 3, m_tags = [''a'', ''b''], m_source_preset = None\<rparr>"

definition two_prompts :: "(string \<times> jsval) list" where
  "two_prompts = [(''prompt_1'', encode greeting), (''prompt_2'', encode persona)]"




section \<open>Filtering (PromptDataManager.applyFilters, PromptLibraryUI.applyFilters)\<close>

definition bindE :: "error + 'a \<Rightarrow> ('a \<Rightarrow> error + 'b) \<Rightarrow> error + 'b" where
  "bindE m f = (case m of Inl e \<Rightarrow> Inl e | Inr x \<Rightarrow> f x)"

text \<open>\<open>a || b\<close> where evaluating either side may throw: \<open>b\<close> counts only when \<open>a\<close> is
  false.\<close>

definition orE :: "error + bool \<Rightarrow> error + bool \<Rightarrow> error + bool" where
  "orE a b = (case a of Inl e \<Rightarrow> Inl e | Inr x \<Rightarrow> if x then Inr True else b)"

definition andE :: "error + bool \<Rightarrow> error + bool \<Rightarrow> error + bool" where
  "andE a b = (case a of Inl e \<Rightarrow> Inl e | Inr x \<Rightarrow> if x then b else Inr False)"

definition not_a_function :: "string \<Rightarrow> error" where
  "not_a_function m = TypeError (m @ '' is not a function'')"

text \<open>\<open>v.toLowerCase().includes(searchTerm)\<close>: only a string has \<open>toLowerCase\<close>.\<close>

fun lower_includes :: "jsval \<Rightarrow> string \<Rightarrow> error + bool" where
  "lower_includes (JStr s) searchTerm = Inr (str_includes (toLowerCase s) searchTerm)"
| "lower_includes v searchTerm =
     Inl (if nullish v then read_error ''toLowerCase'' else not_a_function ''toLowerCase'')"

text \<open>\<open>xs.some(f)\<close> and \<open>xs.every(f)\<close> call \<open>f\<close> from the left and stop at the first
  \<open>true\<close> (respectively \<open>false\<close>).\<close>

fun someE :: "('a \<Rightarrow> error + bool) \<Rightarrow> 'a list \<Rightarrow> error + bool" where
  "someE f [] = Inr False"
| "someE f (x # xs) = orE (f x) (someE f xs)"

fun everyE :: "('a \<Rightarrow> error + bool) \<Rightarrow> 'a list \<Rightarrow> error + bool" where
  "everyE f [] = Inr True"
| "everyE f (x # xs) = andE (f x) (everyE f xs)"

text \<open>\<open>prompt.metadata.tags\<close> as the receiver of a method call.\<close>

definition prompt_tags :: "jsval \<Rightarrow> error + jsval" where
  "prompt_tags prompt =
     bindE (get_prop prompt ''metadata'') (\<lambda>metadata. get_prop metadata ''tags'')"

definition tags_some_lower_includes :: "jsval \<Rightarrow> string \<Rightarrow> error + bool" where
  "tags_some_lower_includes prompt searchTerm =
     bindE (prompt_tags prompt) (\<lambda>tags.
       case tags of
         JArr ts \<Rightarrow> someE (\<lambda>tag. lower_includes tag searchTerm) ts
       | _ \<Rightarrow> Inl (if nullish tags then read_error ''some'' else not_a_function ''some''))"

definition matches_search :: "string \<Rightarrow> jsval \<Rightarrow> error + bool" where
  "matches_search searchTerm prompt =
     bindE (get_prop prompt ''name'') (\<lambda>name.
       orE (lower_includes name searchTerm)
        (orE (lower_includes (js_get prompt ''content'') searchTerm)
             (tags_some_lower_includes prompt searchTerm)))"

definition matches_role :: "jsval \<Rightarrow> jsval \<Rightarrow> error + bool" where
  "matches_role role prompt =
     bindE (get_prop prompt ''role'') (\<lambda>r. Inr (strict_eq r role))"

definition matches_favorite :: "jsval \<Rightarrow> jsval \<Rightarrow> error + bool" where
  "matches_favorite favorite prompt =
     bindE (get_prop prompt ''metadata'') (\<lambda>metadata.
     bindE (get_prop metadata ''favorite'') (\<lambda>f. Inr (strict_eq f favorite)))"

text \<open>\<open>prompt.metadata.tags.includes(tag)\<close>: \<open>Array.prototype.includes\<close> on an array,
  \<open>String.prototype.includes\<close> on a string, no such method on anything else.\<close>

definition tags_include :: "jsval \<Rightarrow> jsval \<Rightarrow> error + bool" where
  "tags_include prompt tag =
     bindE (prompt_tags prompt) (\<lambda>tags.
       case tags of
         JArr ts \<Rightarrow> Inr (arr_includes ts tag)
       | JStr s \<Rightarrow> Inr (str_includes s (js_to_string tag))
       | _ \<Rightarrow> Inl (if nullish tags then read_error ''includes'' else not_a_function ''includes''))"

text \<open>PromptDataManager: \<open>filters.tags.some(tag => prompt.metadata.tags.includes(tag))\<close>.\<close>

definition matches_tags :: "jsval list \<Rightarrow> jsval \<Rightarrow> error + bool" where
  "matches_tags tags prompt = someE (tags_include prompt) tags"

text \<open>PromptLibraryUI: \<open>filters.tags.every(tag => prompt.metadata.tags.includes(tag))\<close>,
  commented in the source as "AND logic - all specified tags must be present".\<close>

definition matches_all_tags :: "jsval list \<Rightarrow> jsval \<Rightarrow> error + bool" where
  "matches_all_tags tags prompt = everyE (tags_include prompt) tags"

text \<open>\<open>Object.fromEntries(Object.entries(filtered).filter(([id, prompt]) => P(prompt)))\<close>.\<close>

fun filter_entries ::
  "(jsval \<Rightarrow> error + bool) \<Rightarrow> (string \<times> jsval) list \<Rightarrow> error + (string \<times> jsval) list" where
  "filter_entries P [] = Inr []"
| "filter_entries P ((k, v) # kvs) =
     bindE (P v) (\<lambda>b.
     bindE (filter_entries P kvs) (\<lambda>r. Inr (if b then (k, v) # r else r)))"

text \<open>The four guards. \<open>filters.search && filters.search.trim()\<close> calls \<open>trim\<close> on any
  truthy value.\<close>

definition search_term :: "jsval \<Rightarrow> error + string option" where
  "search_term filters =
     (let search = js_get filters ''search'' in
      if \<not> truthy search then Inr None
      else (case search of
              JStr s \<Rightarrow> Inr (if js_trim s \<noteq> [] then Some (js_trim (toLowerCase s)) else None)
            | _ \<Rightarrow> Inl (not_a_function ''trim'')))"

definition role_filter :: "jsval \<Rightarrow> jsval option" where
  "role_filter filters =
     (let role = js_get filters ''role'' in
      if truthy role \<and> \<not> strict_eq role (JStr ''all'') then Some role else None)"

definition favorite_filter :: "jsval \<Rightarrow> jsval option" where
  "favorite_filter filters =
     (let favorite = js_get filters ''favorite'' in
      if favorite \<noteq> JUndefined \<and> favorite \<noteq> JNull then Some favorite else None)"

definition tags_filter :: "jsval \<Rightarrow> jsval list option" where
  "tags_filter filters =
     (case js_get filters ''tags'' of
        JArr ts \<Rightarrow> if length ts > 0 then Some ts else None
      | _ \<Rightarrow> None)"

definition stage ::
  "'c option \<Rightarrow> ('c \<Rightarrow> jsval \<Rightarrow> error + bool) \<Rightarrow> (string \<times> jsval) list \<Rightarrow>
   error + (string \<times> jsval) list" where
  "stage guard P filtered = (case guard of None \<Rightarrow> Inr filtered | Some c \<Rightarrow> filter_entries (P c) filtered)"

definition filter_with ::
  "(jsval list \<Rightarrow> jsval \<Rightarrow> error + bool) \<Rightarrow> (string \<times> jsval) list \<Rightarrow> jsval \<Rightarrow>
   error + (string \<times> jsval) list" where
  "filter_with tagsP prompts filters =
     (if nullish filters then Inl (read_error ''search'')
      else
        bindE (search_term filters) (\<lambda>term.
        bindE (stage term matches_search prompts) (\<lambda>filtered1.
        bindE (stage (role_filter filters) matches_role filtered1) (\<lambda>filtered2.
        bindE (stage (favorite_filter filters) matches_favorite filtered2) (\<lambda>filtered3.
        stage (tags_filter filters) tagsP filtered3)))))"

text \<open>PromptDataManager.applyFilters. It has no \<open>try\<close> of its own.\<close>

definition applyFilters :: "(string \<times> jsval) list \<Rightarrow> jsval \<Rightarrow> error + (string \<times> jsval) list" where
  "applyFilters prompts filters = filter_with matches_tags prompts filters"

text \<open>PromptLibraryUI.applyFilters differs in the tags filter and catches what is thrown:
  it returns \<open>{success, filteredPrompts, message}\<close>, with \<open>filteredPrompts = {}\<close> and the
  error message on failure.\<close>

record filter_result =
  fr_success :: bool
  fr_error :: "string option"
  filteredPrompts :: "(string \<times> jsval) list"
  fr_message :: string

definition applyFilters_ui :: "(string \<times> jsval) list \<Rightarrow> jsval \<Rightarrow> filter_result" where
  "applyFilters_ui prompts filters =
     (case filter_with matches_all_tags prompts filters of
        Inr filtered \<Rightarrow>
          \<lparr>fr_success = True, fr_error = None, filteredPrompts = filtered,
           fr_message = ''Filtered '' @ show_nat (length filtered) @ '' prompts''\<rparr>
      | Inl e \<Rightarrow>
          \<lparr>fr_success = False, fr_error = Some (error_message e), filteredPrompts = [],
           fr_message = ''Failed to apply filters''\<rparr>)"

section \<open>Properties of filtering\<close>







definition only :: "string \<Rightarrow> jsval \<Rightarrow> jsval" where
  "only key filters = JObj [(key, js_get filters key)]"



















text \<open>
  Claim C1. The claim asks for the records whose tags contain all the listed tags.
  PromptDataManager.applyFilters keeps a record as soon as one listed tag is among its
  tags: the record tagged only \<open>a\<close> passes the filter \<open>tags = [a, b]\<close>.
  PromptLibraryUI.applyFilters, on the same input, keeps only the record tagged with
  both.
\<close>

theorem applyFilters_tags_any:
  "applyFilters two_prompts (JObj [(''tags'', JArr [JStr ''a'', JStr ''b''])]) = Inr two_prompts \<and>
   filteredPrompts (applyFilters_ui two_prompts (JObj [(''tags'', JArr [JStr ''a'', JStr ''b''])])) =
     [(''prompt_2'', encode persona)]"
  by code_simp

section \<open>Sorting (PromptLibraryUI.sortPrompts, PromptLibraryUI.applySorting)\<close>

text \<open>
  \<open>new Date(v).getTime()\<close>: the time value in milliseconds, \<open>None\<close> for an invalid date
  (\<open>NaN\<close>). A string is parsed, a number is the time value itself when it is within
  the range of \<open>Date\<close>, \<open>null\<close> and the booleans convert to numbers, an array or object
  is converted to a string first.
\<close>

definition time_clip :: "int \<Rightarrow> int option" where
  "time_clip n = (if \<bar>n\<bar> \<le> 8640000000000000 then Some n else None)"

fun new_Date :: "env \<Rightarrow> jsval \<Rightarrow> int option" where
  "new_Date E (JStr s) = date_parse E s"
| "new_Date E (JNum n) = time_clip n"
| "new_Date E JNaN = None"
| "new_Date E (JBool b) = Some (if b then 1 else 0)"
| "new_Date E JNull = Some 0"
| "new_Date E JUndefined = None"
| "new_Date E v = date_parse E (js_to_string v)"

text \<open>\<open>d1 - d2\<close> on dates: \<open>NaN\<close> as soon as one of them is invalid.\<close>

definition date_diff :: "int option \<Rightarrow> int option \<Rightarrow> int option" where
  "date_diff d1 d2 = (case (d1, d2) of (Some a, Some b) \<Rightarrow> Some (a - b) | _ \<Rightarrow> None)"

text \<open>
  \<open>Array.prototype.sort(comparefn)\<close> is stable, and a result of \<open>comparefn(a, b)\<close> that
  is \<open>NaN\<close> counts as zero. For a comparator that is a consistent ordering the sorted
  array is determined; it is computed here by a stable insertion sort, which moves an
  element behind its successor only when the comparator returns a positive number. Which pairs
  are compared, and what is returned for an inconsistent comparator, is up to the engine.
  A comparator that throws aborts the sort.
\<close>

definition cmp_positive :: "int option \<Rightarrow> bool" where
  "cmp_positive c = (case c of Some n \<Rightarrow> n > 0 | None \<Rightarrow> False)"

fun insertE :: "('a \<Rightarrow> 'a \<Rightarrow> error + int option) \<Rightarrow> 'a \<Rightarrow> 'a list \<Rightarrow> error + 'a list" where
  "insertE cmp x [] = Inr [x]"
| "insertE cmp x (y # ys) =
     bindE (cmp x y) (\<lambda>c.
       if cmp_positive c then bindE (insertE cmp x ys) (\<lambda>r. Inr (y # r))
       else Inr (x # y # ys))"

fun sortE :: "('a \<Rightarrow> 'a \<Rightarrow> error + int option) \<Rightarrow> 'a list \<Rightarrow> error + 'a list" where
  "sortE cmp [] = Inr []"
| "sortE cmp (x # xs) = bindE (sortE cmp xs) (insertE cmp x)"

text \<open>\<open>prompt.metadata.k\<close>.\<close>

definition metadata_prop :: "jsval \<Rightarrow> string \<Rightarrow> error + jsval" where
  "metadata_prop prompt k =
     bindE (get_prop prompt ''metadata'') (\<lambda>metadata. get_prop metadata k)"

text \<open>\<open>a.localeCompare(b)\<close> needs a string receiver and converts its argument.\<close>

fun localeCompare :: "env \<Rightarrow> jsval \<Rightarrow> jsval \<Rightarrow> error + int option" where
  "localeCompare E (JStr a) b = Inr (Some (locale_compare E a (js_to_string b)))"
| "localeCompare E v b =
     Inl (if nullish v then read_error ''localeCompare'' else not_a_function ''localeCompare'')"

fun js_toLowerCase :: "jsval \<Rightarrow> error + jsval" where
  "js_toLowerCase (JStr s) = Inr (JStr (toLowerCase s))"
| "js_toLowerCase v =
     Inl (if nullish v then read_error ''toLowerCase'' else not_a_function ''toLowerCase'')"

subsection \<open>sortPrompts\<close>

text \<open>\<open>a.metadata.last_used || a.metadata.created_at\<close>.\<close>

definition used_or_created :: "jsval \<Rightarrow> error + jsval" where
  "used_or_created a =
     bindE (metadata_prop a ''last_used'') (\<lambda>last_used.
       if truthy last_used then Inr last_used else metadata_prop a ''created_at'')"

definition sp_latest_used :: "env \<Rightarrow> jsval \<Rightarrow> jsval \<Rightarrow> error + int option" where
  "sp_latest_used E a b =
     bindE (used_or_created a) (\<lambda>aUsed.
     bindE (used_or_created b) (\<lambda>bUsed.
       Inr (date_diff (new_Date E bUsed) (new_Date E aUsed))))"

definition sp_oldest_used :: "env \<Rightarrow> jsval \<Rightarrow> jsval \<Rightarrow> error + int option" where
  "sp_oldest_used E a b =
     bindE (used_or_created a) (\<lambda>aUsed.
     bindE (used_or_created b) (\<lambda>bUsed.
       Inr (date_diff (new_Date E aUsed) (new_Date E bUsed))))"

definition sp_name :: "env \<Rightarrow> jsval \<Rightarrow> jsval \<Rightarrow> error + int option" where
  "sp_name E a b =
     bindE (get_prop a ''name'') (\<lambda>aName.
     bindE (get_prop b ''name'') (\<lambda>bName. localeCompare E aName bName))"

definition by_created :: "env \<Rightarrow> jsval \<Rightarrow> jsval \<Rightarrow> error + int option" where
  "by_created E a b =
     bindE (metadata_prop b ''created_at'') (\<lambda>bCreated.
     bindE (metadata_prop a ''created_at'') (\<lambda>aCreated.
       Inr (date_diff (new_Date E bCreated) (new_Date E aCreated))))"

definition sortPrompts :: "env \<Rightarrow> jsval list \<Rightarrow> string \<Rightarrow> error + jsval list" where
  "sortPrompts E prompts sortBy =
     (if sortBy = ''latest_used'' then sortE (sp_latest_used E) prompts
      else if sortBy = ''oldest_used'' then sortE (sp_oldest_used E) prompts
      else if sortBy = ''name'' then sortE (sp_name E) prompts
      else if sortBy = ''created'' then sortE (by_created E) prompts
      else Inr prompts)"

subsection \<open>applySorting\<close>

text \<open>\<open>a.metadata.last_used ? new Date(a.metadata.last_used) : new Date(0)\<close>.\<close>

definition used_or_epoch :: "env \<Rightarrow> jsval \<Rightarrow> error + int option" where
  "used_or_epoch E a =
     bindE (metadata_prop a ''last_used'') (\<lambda>last_used.
       Inr (if truthy last_used then new_Date E last_used else Some 0))"

definition as_latest_used :: "env \<Rightarrow> jsval \<Rightarrow> jsval \<Rightarrow> error + int option" where
  "as_latest_used E a b =
     bindE (used_or_epoch E a) (\<lambda>aUsed.
     bindE (used_or_epoch E b) (\<lambda>bUsed. Inr (date_diff bUsed aUsed)))"

text \<open>The source comments the three early returns with "Handle null dates - put them at
  the end".\<close>

definition as_oldest_used :: "env \<Rightarrow> jsval \<Rightarrow> jsval \<Rightarrow> error + int option" where
  "as_oldest_used E a b =
     bindE (used_or_epoch E a) (\<lambda>aUsed.
     bindE (used_or_epoch E b) (\<lambda>bUsed.
       let aLast = js_get (js_get a ''metadata'') ''last_used'';
           bLast = js_get (js_get b ''metadata'') ''last_used''
       in if \<not> truthy aLast \<and> \<not> truthy bLast then Inr (Some 0)
          else if \<not> truthy aLast then Inr (Some 1)
          else if \<not> truthy bLast then Inr (Some (- 1))
          else Inr (date_diff aUsed bUsed)))"

definition as_name :: "env \<Rightarrow> jsval \<Rightarrow> jsval \<Rightarrow> error + int option" where
  "as_name E a b =
     bindE (get_prop a ''name'') (\<lambda>aName.
     bindE (js_toLowerCase aName) (\<lambda>aLower.
     bindE (get_prop b ''name'') (\<lambda>bName.
     bindE (js_toLowerCase bName) (\<lambda>bLower. localeCompare E aLower bLower))))"

definition sortedArray :: "env \<Rightarrow> jsval list \<Rightarrow> string \<Rightarrow> error + jsval list" where
  "sortedArray E promptArray sortBy =
     (if sortBy = ''latest_used'' then sortE (as_latest_used E) promptArray
      else if sortBy = ''oldest_used'' then sortE (as_oldest_used E) promptArray
      else if sortBy = ''name'' then sortE (as_name E) promptArray
      else if sortBy = ''created'' then sortE (by_created E) promptArray
      else Inr promptArray)"




section \<open>Properties of sorting\<close>

text \<open>The stable insertion sort for a comparator that does not throw.\<close>

fun insert_by :: "('a \<Rightarrow> 'a \<Rightarrow> int option) \<Rightarrow> 'a \<Rightarrow> 'a list \<Rightarrow> 'a list" where
  "insert_by c x [] = [x]"
| "insert_by c x (y # ys) = (if cmp_positive (c x y) then y # insert_by c x ys else x # y # ys)"

fun sort_by :: "('a \<Rightarrow> 'a \<Rightarrow> int option) \<Rightarrow> 'a list \<Rightarrow> 'a list" where
  "sort_by c [] = []"
| "sort_by c (x # xs) = insert_by c x (sort_by c xs)"

lemma set_insert_by [simp]: "set (insert_by c x ys) = insert x (set ys)"
  by (induction ys) auto

lemma set_sort_by [simp]: "set (sort_by c xs) = set xs"
  by (induction xs) auto

lemma length_sort_by [simp]: "length (sort_by c xs) = length xs"
proof -
  have "length (insert_by c x ys) = Suc (length ys)" for x ys
    by (induction ys) auto
  then show ?thesis by (induction xs) auto
qed



































subsection \<open>Sorting by name\<close>

definition named :: "string \<Rightarrow> string \<Rightarrow> jsval" where
  "named i n = encode (greeting\<lparr>p_id := i, p_name := n\<rparr>)"

lemma js_get_named_name: "js_get (named i n) ''name'' = JStr n"
  by (simp add: named_def encode_def encode_fields_def)

lemma as_name_same_lower:
  assumes "js_get a ''name'' = JStr x" "js_get b ''name'' = JStr y" "toLowerCase x = toLowerCase y"
  shows "as_name E a b = Inr (Some (locale_compare E (toLowerCase y) (toLowerCase y)))"
proof -
  have "\<not> nullish a" using assms(1) by (cases a) simp_all
  moreover have "\<not> nullish b" using assms(2) by (cases b) simp_all
  ultimately show ?thesis
    using assms by (simp add: as_name_def get_prop_def bindE_def)
qed

lemma lower_bob: "toLowerCase ''Bob'' = ''bob''" "toLowerCase ''bob'' = ''bob''" by code_simp+

lemma named_not_nullish: "\<not> nullish (named i n)" by (simp add: named_def encode_def)

lemma sp_name_Bob_bob: "sp_name E (named ''prompt_1'' ''Bob'') (named ''prompt_2'' ''bob'') =
             Inr (Some (locale_compare E ''Bob'' ''bob''))"
    by (simp add: sp_name_def get_prop_def named_not_nullish js_get_named_name bindE_def)


lemma as_name_Bob_bob:
  assumes "locale_compare E ''bob'' ''bob'' = 0"
  shows "as_name E (named ''prompt_1'' ''Bob'') (named ''prompt_2'' ''bob'') = Inr (Some 0)"
proof -
  have "as_name E (named ''prompt_1'' ''Bob'') (named ''prompt_2'' ''bob'') =
      Inr (Some (locale_compare E (toLowerCase ''bob'') (toLowerCase ''bob'')))"
    by (rule as_name_same_lower [of _ "''Bob''" _ "''bob''"]) (simp_all only: js_get_named_name lower_bob)
  then show ?thesis by (simp only: lower_bob assms)
qed


text \<open>
  Claim C5. The name sort is to treat two names that differ only in letter case as
  equal. applySorting compares the lower-cased names, so such a pair compares as the
  lower-cased name with itself. sortPrompts compares the names as they are: on a host
  whose \<open>localeCompare\<close> puts \<open>bob\<close> before \<open>Bob\<close> (and finds \<open>bob\<close> equal to itself) it
  moves the record named \<open>bob\<close> in front of the one named \<open>Bob\<close>, where applySorting
  leaves the two in the order of the input.
\<close>

theorem name_sort_case:
  assumes "0 < locale_compare E ''Bob'' ''bob''" and "locale_compare E ''bob'' ''bob'' = 0"
  shows "sortPrompts E [named ''prompt_1'' ''Bob'', named ''prompt_2'' ''bob''] ''name'' =
           Inr [named ''prompt_2'' ''bob'', named ''prompt_1'' ''Bob''] \<and>
         sortedArray E [named ''prompt_1'' ''Bob'', named ''prompt_2'' ''bob''] ''name'' =
           Inr [named ''prompt_1'' ''Bob'', named ''prompt_2'' ''bob'']"
proof -
  have a: "sortE (sp_name E) [named ''prompt_1'' ''Bob'', named ''prompt_2'' ''bob''] =
           Inr [named ''prompt_2'' ''bob'', named ''prompt_1'' ''Bob'']"
    using assms(1) by (simp add: sp_name_Bob_bob bindE_def cmp_positive_def)
  have b: "sortE (as_name E) [named ''prompt_1'' ''Bob'', named ''prompt_2'' ''bob''] =
           Inr [named ''prompt_1'' ''Bob'', named ''prompt_2'' ''bob'']"
    by (simp add: as_name_Bob_bob [OF assms(2)] bindE_def cmp_positive_def)
  show ?thesis
    using a b by (simp add: sortPrompts_def sortedArray_def)
qed

theorem name_sort_case_witness:
  "0 < locale_compare utc_env ''Bob'' ''bob'' \<and> locale_compare utc_env ''bob'' ''bob'' = 0 \<and>
   sortPrompts utc_env [named ''prompt_1'' ''Bob'', named ''prompt_2'' ''bob''] ''name'' =
     Inr [named ''prompt_2'' ''bob'', named ''prompt_1'' ''Bob''] \<and>
   sortedArray utc_env [named ''prompt_1'' ''Bob'', named ''prompt_2'' ''bob''] ''name'' =
     Inr [named ''prompt_1'' ''Bob'', named ''prompt_2'' ''bob'']"
proof -
  have a: "0 < locale_compare utc_env ''Bob'' ''bob''" by code_simp
  have b: "locale_compare utc_env ''bob'' ''bob'' = 0" by code_simp
  from name_sort_case [OF a b] a b show ?thesis by (intro conjI) simp_all
qed

section \<open>Content diff (PromptDataManager.generateContentDiff)\<close>

text \<open>
  JavaScript strings are modelled as \<^typ>\<open>string\<close>. \<open>content.split('\n')\<close> cuts at every
  line feed and always returns at least one line (the empty string gives one empty line).
\<close>

fun split_lines :: "string \<Rightarrow> string list" where
  "split_lines [] = [[]]"
| "split_lines (c # cs) =
     (if c = CHR 0x0A then [] # split_lines cs
      else (case split_lines cs of
              [] \<Rightarrow> [[c]]
            | l # ls \<Rightarrow> (c # l) # ls))"

datatype diff_type = Unchanged | Added | Removed

record diff_entry =
  dtype :: diff_type
  content :: string
  lineNumber :: nat

text \<open>\<open>lines[i] || ''\<close>: an index past the end reads \<open>undefined\<close>, which \<open>||\<close> turns into
  the empty string (as it does an empty line).\<close>

definition line_at :: "string list \<Rightarrow> nat \<Rightarrow> string" where
  "line_at ls i = (if i < length ls then ls ! i else [])"

text \<open>The body of the \<open>for\<close> loop at index \<open>i\<close>: the entries it pushes.\<close>

definition diff_step :: "string list \<Rightarrow> string list \<Rightarrow> nat \<Rightarrow> diff_entry list" where
  "diff_step lines1 lines2 i =
     (let line1 = line_at lines1 i; line2 = line_at lines2 i in
      if line1 = line2 then
        (if line1 \<noteq> [] then [\<lparr>dtype = Unchanged, content = line1, lineNumber = i + 1\<rparr>] else [])
      else if line1 = [] \<and> line2 \<noteq> [] then
        [\<lparr>dtype = Added, content = line2, lineNumber = i + 1\<rparr>]
      else if line1 \<noteq> [] \<and> line2 = [] then
        [\<lparr>dtype = Removed, content = line1, lineNumber = i + 1\<rparr>]
      else
        [\<lparr>dtype = Removed, content = line1, lineNumber = i + 1\<rparr>,
         \<lparr>dtype = Added, content = line2, lineNumber = i + 1\<rparr>])"

function diff_loop ::
  "string list \<Rightarrow> string list \<Rightarrow> nat \<Rightarrow> nat \<Rightarrow> diff_entry list \<Rightarrow> diff_entry list" where
  "diff_loop lines1 lines2 maxLines i differences =
     (if i < maxLines
      then diff_loop lines1 lines2 maxLines (i + 1) (differences @ diff_step lines1 lines2 i)
      else differences)"
  by pat_completeness auto
termination
  by (relation "measure (\<lambda>(l1, l2, m, i, d). m - i)") auto

declare diff_loop.simps [simp del]

definition generateContentDiff :: "string \<Rightarrow> string \<Rightarrow> diff_entry list" where
  "generateContentDiff content1 content2 =
     (let lines1 = split_lines content1;
          lines2 = split_lines content2;
          maxLines = max (length lines1) (length lines2)
      in diff_loop lines1 lines2 maxLines 0 [])"

section \<open>Properties of the content diff\<close>

lemma diff_step_same:
  "e \<in> set (diff_step ls ls i) \<Longrightarrow> dtype e = Unchanged"
  by (auto simp: diff_step_def Let_def split: if_splits)

lemma diff_loop_same:
  "lines1 = lines2 \<Longrightarrow>
   filter (\<lambda>e. dtype e = Added \<or> dtype e = Removed) acc = [] \<Longrightarrow>
   filter (\<lambda>e. dtype e = Added \<or> dtype e = Removed) (diff_loop lines1 lines2 m i acc) = []"
proof (induction lines1 lines2 m i acc rule: diff_loop.induct)
  case (1 lines1 lines2 maxLines i differences)
  have step: "filter (\<lambda>e. dtype e = Added \<or> dtype e = Removed) (diff_step lines1 lines2 i) = []"
    using "1.prems"(1) by (auto simp: filter_empty_conv dest: diff_step_same)
  show ?case
  proof (cases "i < maxLines")
    case True
    then show ?thesis
      using 1 step by (subst diff_loop.simps) simp
  next
    case False
    then show ?thesis
      using 1 by (subst diff_loop.simps) simp
  qed
qed

text \<open>
  Claim C8. For every content string \<open>s\<close>, the diff of \<open>s\<close> with itself contains no entry
  of type \<open>added\<close> and no entry of type \<open>removed\<close>.
\<close>

theorem diff_identical_no_changes:
  "filter (\<lambda>e. dtype e = Added \<or> dtype e = Removed) (generateContentDiff s s) = []"
  unfolding generateContentDiff_def Let_def
  by (rule diff_loop_same) simp_all


section \<open>The record store (PromptDataManager)\<close>

text \<open>
  \<open>extension_settings[extensionName].prompts\<close>, the object that maps an id to its record:
  \<open>None\<close> while the settings object or its \<open>prompts\<close> entry does not exist. Results are the
  objects the operations return.
\<close>

type_synonym store = "(string \<times> jsval) list option"

definition obj_delete :: "string \<Rightarrow> (string \<times> jsval) list \<Rightarrow> (string \<times> jsval) list" where
  "obj_delete k kvs = AList.delete k kvs"

text \<open>\<open>obj[k]\<close> for an own property.\<close>

definition lookup :: "(string \<times> jsval) list \<Rightarrow> string \<Rightarrow> jsval" where
  "lookup kvs k = js_get (JObj kvs) k"

subsection \<open>createPromptData\<close>

definition default_metadata :: "env \<Rightarrow> jsval \<Rightarrow> (string \<times> jsval) list" where
  "default_metadata E metadata =
     [(''created_at'', js_or (opt_prop metadata ''created_at'') (JStr (now_iso E))),
      (''last_used'', js_or (opt_prop metadata ''last_used'') JNull),
      (''favorite'', js_or (opt_prop metadata ''favorite'') (JBool False)),
      (''usage_count'', js_or (opt_prop metadata ''usage_count'') (JNum 0)),
      (''tags'', js_or (opt_prop metadata ''tags'') (JArr [])),
      (''source_preset'', js_or (opt_prop metadata ''source_preset'') JNull)]"

definition createPromptData :: "env \<Rightarrow> jsval \<Rightarrow> error + jsval" where
  "createPromptData E promptData =
     (if nullish promptData then Inl (read_error ''id'')
      else Inr (JObj
        [(''id'', js_or (js_get promptData ''id'') (JStr (fresh_id E))),
         (''name'', js_or (js_get promptData ''name'') (JStr ''Untitled Prompt'')),
         (''content'', js_or (js_get promptData ''content'') (JStr [])),
         (''role'', js_or (js_get promptData ''role'') (JStr ''user'')),
         (''system_prompt'', js_or (js_get promptData ''system_prompt'') (JBool False)),
         (''marker'', js_or (js_get promptData ''marker'') (JBool False)),
         (''injection_position'', js_or (js_get promptData ''injection_position'') (JNum 0)),
         (''injection_depth'', js_or (js_get promptData ''injection_depth'') (JNum 4)),
         (''injection_order'', js_or (js_get promptData ''injection_order'') (JNum 100)),
         (''forbid_overrides'', js_or (js_get promptData ''forbid_overrides'') (JBool False)),
         (''metadata'',
            JObj (spread (default_metadata E (js_get promptData ''metadata''))
                         (js_get promptData ''metadata'')))]))"

subsection \<open>repairPromptData\<close>

definition fixDateString :: "env \<Rightarrow> jsval \<Rightarrow> jsval" where
  "fixDateString E dateStr =
     (if \<not> truthy dateStr then JNull
      else (case dateStr of
              JStr s \<Rightarrow> (case date_parse E s of None \<Rightarrow> JNull | Some t \<Rightarrow> JStr (to_iso E t))
            | _ \<Rightarrow> JNull))"

definition keep_if :: "(jsval \<Rightarrow> bool) \<Rightarrow> jsval \<Rightarrow> jsval \<Rightarrow> jsval" where
  "keep_if ok v d = (if ok v then v else d)"

definition repaired_record :: "env \<Rightarrow> jsval \<Rightarrow> jsval" where
  "repaired_record E promptData =
     (let metadata = js_get promptData ''metadata'' in
      JObj
        [(''id'', js_or (js_get promptData ''id'') (JStr (fresh_id E))),
         (''name'', js_or (js_get promptData ''name'') (JStr ''Recovered Prompt'')),
         (''content'', js_or (js_get promptData ''content'') (JStr [])),
         (''role'', keep_if (arr_includes role_names) (js_get promptData ''role'') (JStr ''user'')),
         (''system_prompt'', keep_if is_boolean (js_get promptData ''system_prompt'') (JBool False)),
         (''marker'', keep_if is_boolean (js_get promptData ''marker'') (JBool False)),
         (''injection_position'', keep_if is_number (js_get promptData ''injection_position'') (JNum 0)),
         (''injection_depth'', keep_if is_number (js_get promptData ''injection_depth'') (JNum 4)),
         (''injection_order'', keep_if is_number (js_get promptData ''injection_order'') (JNum 100)),
         (''forbid_overrides'', keep_if is_boolean (js_get promptData ''forbid_overrides'') (JBool False)),
         (''metadata'', JObj
            [(''created_at'', js_or (fixDateString E (opt_prop metadata ''created_at'')) (JStr (now_iso E))),
             (''last_used'', fixDateString E (opt_prop metadata ''last_used'')),
             (''favorite'', keep_if is_boolean (opt_prop metadata ''favorite'') (JBool False)),
             (''usage_count'', keep_if is_number (opt_prop metadata ''usage_count'') (JNum 0)),
             (''tags'', keep_if isArray (opt_prop metadata ''tags'') (JArr [])),
             (''source_preset'', js_or (opt_prop metadata ''source_preset'') JNull)])])"

text \<open>\<open>null\<close> (\<open>None\<close>) when the repaired record is still invalid, and when building it
  throws, which reading \<open>promptData.id\<close> does for \<open>undefined\<close> and \<open>null\<close>.\<close>

definition repairPromptData :: "env \<Rightarrow> jsval \<Rightarrow> jsval option" where
  "repairPromptData E promptData =
     (if nullish promptData then None
      else if isValid (validation_errors E (repaired_record E promptData))
           then Some (repaired_record E promptData)
           else None)"

subsection \<open>getPrompts and loadPrompt\<close>

text \<open>
  The loop of getPrompts over the entries of a copy of the store: a valid record is
  kept, an invalid one is replaced by its repair in the result and in the store, an
  unrepairable one is deleted from the store. Validation throws on \<open>undefined\<close> and
  \<open>null\<close>; the store keeps the changes made until then.
\<close>

fun validate_entries ::
  "env \<Rightarrow> (string \<times> jsval) list \<Rightarrow> (string \<times> jsval) list \<Rightarrow> (string \<times> jsval) list \<Rightarrow>
   (error + (string \<times> jsval) list) \<times> (string \<times> jsval) list" where
  "validate_entries E [] validPrompts stored = (Inr validPrompts, stored)"
| "validate_entries E ((i, promptData) # rest) validPrompts stored =
     (case validatePromptData E promptData of
        Inl e \<Rightarrow> (Inl e, stored)
      | Inr errors \<Rightarrow>
          if isValid errors then validate_entries E rest (obj_set i promptData validPrompts) stored
          else (case repairPromptData E promptData of
                  Some repairedData \<Rightarrow>
                    validate_entries E rest (obj_set i repairedData validPrompts)
                      (obj_set i repairedData stored)
                | None \<Rightarrow> validate_entries E rest validPrompts (obj_delete i stored)))"

text \<open>\<open>getPrompts(filters = {})\<close>. Whatever is thrown inside is caught and \<open>{}\<close> returned.\<close>

definition getPrompts :: "env \<Rightarrow> store \<Rightarrow> jsval \<Rightarrow> (string \<times> jsval) list \<times> store" where
  "getPrompts E st filters0 =
     (case st of
        None \<Rightarrow> ([], None)
      | Some prompts \<Rightarrow>
          (let filters = (if filters0 = JUndefined then JObj [] else filters0);
               (r, stored) = validate_entries E prompts [] prompts
           in case r of
                Inl e \<Rightarrow> ([], Some stored)
              | Inr validPrompts \<Rightarrow>
                  if nullish filters then ([], Some stored)
                  else if length (own_entries filters) > 0
                  then (case applyFilters validPrompts filters of
                          Inl e \<Rightarrow> ([], Some stored)
                        | Inr filtered \<Rightarrow> (filtered, Some stored))
                  else (validPrompts, Some stored)))"

text \<open>loadPrompt returns the stored object itself (or \<open>null\<close>).\<close>

definition loadPrompt :: "env \<Rightarrow> store \<Rightarrow> jsval \<Rightarrow> jsval \<times> store" where
  "loadPrompt E st promptId =
     (case st of
        None \<Rightarrow> (JNull, None)
      | Some prompts \<Rightarrow>
          (let promptData = lookup prompts (js_to_string promptId) in
           if \<not> truthy promptData then (JNull, st)
           else if isValid (validation_errors E promptData) then (promptData, st)
           else (case repairPromptData E promptData of
                   Some repairedData \<Rightarrow>
                     (repairedData, Some (obj_set (js_to_string promptId) repairedData prompts))
                 | None \<Rightarrow> (JNull, st))))"

subsection \<open>savePrompt, deletePrompt, updatePromptMetadata\<close>

definition failure :: "string \<Rightarrow> string \<Rightarrow> jsval" where
  "failure err msg = JObj [(''success'', JBool False), (''error'', JStr err), (''message'', JStr msg)]"

definition maxPrompts :: "env \<Rightarrow> int" where
  "maxPrompts E = (case max_prompts E of Some n \<Rightarrow> if n \<noteq> 0 then n else 1000 | None \<Rightarrow> 1000)"

text \<open>The \<open>try\<close> block of savePrompt: what it returns or throws, and the store it leaves.\<close>

definition savePrompt_try :: "env \<Rightarrow> store \<Rightarrow> jsval \<Rightarrow> (error + jsval) \<times> store" where
  "savePrompt_try E st promptData =
     (case createPromptData E promptData of
        Inl e \<Rightarrow> (Inl e, st)
      | Inr completePromptData \<Rightarrow>
          (case validatePromptData E completePromptData of
             Inl e \<Rightarrow> (Inl e, st)
           | Inr errors \<Rightarrow>
               if \<not> isValid errors
               then (Inl (Error (''Prompt validation failed: '' @ join_with '', '' errors)), st)
               else
                 (let (currentPrompts, st1) = getPrompts E st JUndefined;
                      i = js_to_string (js_get completePromptData ''id'')
                  in if int (length currentPrompts) \<ge> maxPrompts E \<and> \<not> truthy (lookup currentPrompts i)
                     then (Inl (Error (''Storage limit reached. Maximum '' @ show_int (maxPrompts E) @
                                       '' prompts allowed.'')), st1)
                     else (Inr (JObj [(''success'', JBool True),
                                      (''promptData'', completePromptData),
                                      (''message'', JStr ''Prompt saved successfully'')]),
                           Some (obj_set i completePromptData (case st1 of None \<Rightarrow> [] | Some ps \<Rightarrow> ps))))))"

definition savePrompt :: "env \<Rightarrow> store \<Rightarrow> jsval \<Rightarrow> jsval \<times> store" where
  "savePrompt E st promptData =
     (case savePrompt_try E st promptData of
        (Inr result, st') \<Rightarrow> (result, st')
      | (Inl e, st') \<Rightarrow> (failure (error_message e) ''Failed to save prompt'', st'))"

definition deletePrompt :: "env \<Rightarrow> store \<Rightarrow> jsval \<Rightarrow> jsval \<times> store" where
  "deletePrompt E st promptId =
     (case st of
        None \<Rightarrow> (failure ''Prompt not found'' ''Prompt does not exist'', st)
      | Some prompts \<Rightarrow>
          if \<not> truthy (lookup prompts (js_to_string promptId))
          then (failure ''Prompt not found'' ''Prompt does not exist'', st)
          else (JObj [(''success'', JBool True), (''message'', JStr ''Prompt deleted successfully'')],
                Some (obj_delete (js_to_string promptId) prompts)))"

text \<open>
  updatePromptMetadata assigns \<open>promptData.metadata = {...promptData.metadata, ...metadata}\<close>
  to the object loadPrompt returned, which is the object in the store: the store holds
  the new metadata from then on, also when the validation that follows fails.
\<close>

definition updatePromptMetadata :: "env \<Rightarrow> store \<Rightarrow> jsval \<Rightarrow> jsval \<Rightarrow> jsval \<times> store" where
  "updatePromptMetadata E st promptId metadata =
     (let (promptData, st1) = loadPrompt E st promptId in
      if \<not> truthy promptData then (failure ''Prompt not found'' ''Prompt does not exist'', st1)
      else
        (let updated = JObj (obj_set ''metadata''
                               (JObj (spread (spread [] (js_get promptData ''metadata'')) metadata))
                               (own_entries promptData));
             st2 = Some (obj_set (js_to_string promptId) updated (case st1 of None \<Rightarrow> [] | Some ps \<Rightarrow> ps));
             errors = validation_errors E updated
         in if \<not> isValid errors
            then (failure (''Validation failed: '' @ join_with '', '' errors) ''Invalid metadata update'', st2)
            else (JObj [(''success'', JBool True), (''promptData'', updated),
                        (''message'', JStr ''Prompt metadata updated successfully'')], st2)))"

subsection \<open>exportPrompts and importPrompts\<close>

definition exportPrompts :: "env \<Rightarrow> store \<Rightarrow> jsval \<times> store" where
  "exportPrompts E st =
     (let (prompts, st1) = getPrompts E st JUndefined in
      (JObj [(''success'', JBool True),
             (''data'', JObj [(''version'', JStr ''1.0.0''),
                              (''exported_at'', JStr (now_iso E)),
                              (''prompt_count'', JNum (int (length prompts))),
                              (''prompts'', JObj prompts)]),
             (''message'', JStr ''Prompts exported successfully'')], st1))"

text \<open>createAutomaticBackup reads the store through getPrompts and writes its copy to
  \<open>localStorage\<close>, which is not modelled; it catches what it throws.\<close>

definition createAutomaticBackup :: "env \<Rightarrow> store \<Rightarrow> store" where
  "createAutomaticBackup E st = snd (getPrompts E st JUndefined)"

record import_counts =
  imported :: nat
  skipped :: nat
  errors :: nat
  details :: "jsval list"

definition detail :: "string \<Rightarrow> jsval \<Rightarrow> string \<Rightarrow> string \<Rightarrow> jsval" where
  "detail promptId promptData status reason =
     JObj [(''id'', JStr promptId),
           (''name'', js_or (js_get promptData ''name'') (JStr ''Unknown'')),
           (''status'', JStr status),
           (''reason'', JStr reason)]"

text \<open>
  The \<open>try\<close> block of one iteration of the import loop. For an invalid record it counts
  an error and then throws while building the report, because it reads
  \<open>validation.issues\<close> and validatePromptData returns \<open>errors\<close>.
\<close>

definition import_entry_try ::
  "env \<Rightarrow> jsval \<Rightarrow> jsval \<Rightarrow> string \<Rightarrow> jsval \<Rightarrow> import_counts \<Rightarrow> store \<Rightarrow>
   (error + import_counts) \<times> import_counts \<times> store" where
  "import_entry_try E importOptions exportedAt promptId promptData c st =
     (let validating = truthy (js_get importOptions ''validatePrompts'') in
      if validating \<and> nullish promptData then (Inl (read_error ''id''), c, st)
      else if validating \<and> \<not> isValid (validation_errors E promptData)
      then (Inl (read_error ''join''), c\<lparr>errors := errors c + 1\<rparr>, st)
      else
        (let (existingPrompts, st1) = getPrompts E st JUndefined;
             existingPrompt = lookup existingPrompts promptId
         in if truthy existingPrompt \<and> \<not> truthy (js_get importOptions ''overwriteExisting'')
            then (Inr (c\<lparr>skipped := skipped c + 1,
                         details := details c @ [detail promptId promptData ''skipped''
                           ''Prompt already exists and overwrite is disabled'']\<rparr>), c, st1)
            else if nullish promptData then (Inl (read_error ''metadata''), c, st1)
            else
              (let merged =
                     (if truthy existingPrompt \<and> truthy (js_get importOptions ''mergeMetadata'')
                      then spread (spread [] (js_get promptData ''metadata''))
                                  (js_get existingPrompt ''metadata'')
                      else spread [] (js_get promptData ''metadata''));
                   metadata = obj_set ''import_source'' exportedAt
                                (obj_set ''imported_at'' (JStr (now_iso E)) merged);
                   finalPromptData = JObj (obj_set ''metadata'' (JObj metadata) (spread [] promptData));
                   (saveResult, st2) = savePrompt E st1 finalPromptData
               in if truthy (js_get saveResult ''success'')
                  then (Inr (c\<lparr>imported := imported c + 1,
                               details := details c @ [detail promptId promptData ''imported''
                                 (if truthy existingPrompt then ''Overwritten'' else ''New prompt'')]\<rparr>), c, st2)
                  else (Inr (c\<lparr>errors := errors c + 1,
                               details := details c @ [detail promptId promptData ''error''
                                 (js_to_string (js_or (js_get saveResult ''error'') (JStr ''Save failed'')))]\<rparr>),
                        c, st2))))"

text \<open>The loop with its \<open>catch\<close>, which reads \<open>promptData.name\<close> again and so throws for
  \<open>undefined\<close> and \<open>null\<close>, out of the loop.\<close>

fun import_entries ::
  "env \<Rightarrow> jsval \<Rightarrow> jsval \<Rightarrow> (string \<times> jsval) list \<Rightarrow> import_counts \<Rightarrow> store \<Rightarrow>
   (error + import_counts) \<times> store" where
  "import_entries E importOptions exportedAt [] c st = (Inr c, st)"
| "import_entries E importOptions exportedAt ((promptId, promptData) # rest) c st =
     (case import_entry_try E importOptions exportedAt promptId promptData c st of
        (Inr c', c0, st') \<Rightarrow> import_entries E importOptions exportedAt rest c' st'
      | (Inl promptError, c0, st') \<Rightarrow>
          if nullish promptData then (Inl (read_error ''name''), st')
          else import_entries E importOptions exportedAt rest
                 (c0\<lparr>errors := errors c0 + 1,
                     details := details c0 @ [detail promptId promptData ''error''
                                                (error_message promptError)]\<rparr>) st')"

definition import_message :: "import_counts \<Rightarrow> string" where
  "import_message c =
     ''Import completed: '' @ show_nat (imported c) @ '' imported, '' @ show_nat (skipped c) @
     '' skipped, '' @ show_nat (errors c) @ '' errors''"

definition importPrompts_try :: "env \<Rightarrow> store \<Rightarrow> jsval \<Rightarrow> jsval \<Rightarrow> (error + jsval) \<times> store" where
  "importPrompts_try E st importData options0 =
     (let options = (if options0 = JUndefined then JObj [] else options0);
          parsed =
            (case importData of
               JStr text \<Rightarrow>
                 (case json_parse E text of
                    None \<Rightarrow> Inl (Error ''Invalid JSON format in import data'')
                  | Some v \<Rightarrow> Inr v)
             | v \<Rightarrow>
                 if typeof v = ''object'' \<and> v \<noteq> JNull then Inr v
                 else Inl (Error ''Invalid import data format - must be JSON string or object''))
      in case parsed of
           Inl e \<Rightarrow> (Inl e, st)
         | Inr parsedData \<Rightarrow>
             if nullish parsedData then (Inl (read_error ''version''), st)
             else if \<not> truthy (js_get parsedData ''version'') \<or> \<not> truthy (js_get parsedData ''exported_at'') \<or>
                     \<not> truthy (js_get parsedData ''prompts'')
             then (Inl (Error (''Invalid import data structure - missing required fields '' @
                               ''(version, exported_at, prompts)'')), st)
             else if nullish options then (Inl (read_error ''createBackup''), st)
             else
               (let st1 = (if js_get options ''createBackup'' \<noteq> JBool False
                           then createAutomaticBackup E st else st);
                    importOptions = JObj (spread
                      [(''overwriteExisting'', js_or (js_get options ''overwriteExisting'') (JBool False)),
                       (''mergeMetadata'', JBool (js_get options ''mergeMetadata'' \<noteq> JBool False)),
                       (''validatePrompts'', JBool (js_get options ''validatePrompts'' \<noteq> JBool False))]
                      options)
                in case import_entries E importOptions (js_get parsedData ''exported_at'')
                          (own_entries (js_get parsedData ''prompts''))
                          \<lparr>imported = 0, skipped = 0, errors = 0, details = []\<rparr> st1 of
                     (Inl e, st2) \<Rightarrow> (Inl e, st2)
                   | (Inr c, st2) \<Rightarrow>
                       (let totalProcessed = imported c + skipped c + errors c in
                        (Inr (JObj [(''success'', JBool (totalProcessed > 0 \<and> errors c = 0)),
                                    (''imported'', JNum (int (imported c))),
                                    (''skipped'', JNum (int (skipped c))),
                                    (''errors'', JNum (int (errors c))),
                                    (''totalProcessed'', JNum (int totalProcessed)),
                                    (''details'', JArr (details c)),
                                    (''message'', JStr (import_message c))]), st2))))"

definition importPrompts :: "env \<Rightarrow> store \<Rightarrow> jsval \<Rightarrow> jsval \<Rightarrow> jsval \<times> store" where
  "importPrompts E st importData options =
     (case importPrompts_try E st importData options of
        (Inr result, st') \<Rightarrow> (result, st')
      | (Inl e, st') \<Rightarrow>
          (JObj [(''success'', JBool False), (''error'', JStr (error_message e)),
                 (''imported'', JNum 0), (''skipped'', JNum 0), (''errors'', JNum 0),
                 (''message'', JStr (''Import failed: '' @ error_message e))], st'))"



section \<open>Saving from the current preset (PromptSaverManager.saveCurrentPrompt)\<close>











section \<open>Properties of the record store\<close>

text \<open>Every record of the store passes validation.\<close>

definition valid_record :: "env \<Rightarrow> jsval \<Rightarrow> bool" where
  "valid_record E p = (\<not> nullish p \<and> isValid (validation_errors E p))"

definition valid_store :: "env \<Rightarrow> (string \<times> jsval) list \<Rightarrow> bool" where
  "valid_store E prompts = (distinct (map fst prompts) \<and> list_all (\<lambda>(k, p). valid_record E p) prompts)"






















subsection \<open>Repairing a valid record\<close>

text \<open>A complete record as importPrompts stores it, with the two import fields.\<close>

definition stamped :: "string \<Rightarrow> string \<Rightarrow> prompt_rec \<Rightarrow> jsval" where
  "stamped imported_at import_source r =
     JObj (encode_fields r @
       [(''metadata'', JObj (encode_metadata r @
          [(''imported_at'', JStr imported_at), (''import_source'', JStr import_source)]))])"







subsection \<open>The results of the data operations\<close>

text \<open>
  Each operation runs inside \<open>try\<close>; what is thrown becomes the failure result of the
  \<open>catch\<close> block. deletePrompt, updatePromptMetadata and exportPrompts contain nothing
  that throws; the \<open>try\<close> blocks of savePrompt and importPrompts are modelled with their
  exceptions.
\<close>

text \<open>The uniform result: a boolean \<open>success\<close>, a string \<open>message\<close> and, on failure, a string
  \<open>error\<close>.\<close>

definition uniform_result :: "jsval \<Rightarrow> bool" where
  "uniform_result r =
     (is_boolean (js_get r ''success'') \<and> is_string (js_get r ''message'') \<and>
      (js_get r ''success'' = JBool False \<longrightarrow> is_string (js_get r ''error'')))"

text \<open>The result of an import that ran through its loop: the counts instead of \<open>error\<close>.\<close>

definition import_report :: "jsval \<Rightarrow> bool" where
  "import_report r =
     (is_boolean (js_get r ''success'') \<and> is_string (js_get r ''message'') \<and>
      is_number (js_get r ''imported'') \<and> is_number (js_get r ''skipped'') \<and>
      is_number (js_get r ''errors'') \<and> is_number (js_get r ''totalProcessed'') \<and>
      js_get r ''error'' = JUndefined)"

lemma uniform_failure: "uniform_result (failure e m)"
  by (simp add: uniform_result_def failure_def is_boolean_def is_string_def)

lemma savePrompt_uniform: "uniform_result (fst (savePrompt E st promptData))"
proof (cases "savePrompt_try E st promptData")
  case (Pair r st')
  show ?thesis
  proof (cases r)
    case (Inl e)
    then show ?thesis using Pair by (simp add: savePrompt_def uniform_failure)
  next
    case (Inr res)
    then have "\<exists>c. res = JObj [(''success'', JBool True), (''promptData'', c),
                           (''message'', JStr ''Prompt saved successfully'')]"
      using Pair
      by (auto simp: savePrompt_try_def Let_def split: sum.splits if_splits prod.splits)
    then show ?thesis
      using Pair Inr
      by (auto simp: savePrompt_def uniform_result_def is_boolean_def is_string_def)
  qed
qed

lemma deletePrompt_uniform: "uniform_result (fst (deletePrompt E st promptId))"
  by (auto simp: deletePrompt_def failure_def uniform_result_def is_boolean_def is_string_def
      split: option.splits)

lemma updatePromptMetadata_uniform: "uniform_result (fst (updatePromptMetadata E st promptId metadata))"
  by (auto simp: updatePromptMetadata_def Let_def failure_def uniform_result_def
      is_boolean_def is_string_def split: prod.splits)

lemma exportPrompts_uniform: "uniform_result (fst (exportPrompts E st))"
  by (auto simp: exportPrompts_def Let_def uniform_result_def is_boolean_def is_string_def
      split: prod.splits)

lemma importPrompts_result:
  "uniform_result (fst (importPrompts E st importData options)) \<or>
   import_report (fst (importPrompts E st importData options))"
proof (cases "importPrompts_try E st importData options")
  case (Pair r st')
  show ?thesis
  proof (cases r)
    case (Inl e)
    then show ?thesis
      using Pair
      by (simp add: importPrompts_def uniform_result_def is_boolean_def is_string_def)
  next
    case (Inr res)
    then have "\<exists>c. res = JObj [(''success'', JBool (imported c + skipped c + errors c > 0 \<and> errors c = 0)),
                                    (''imported'', JNum (int (imported c))),
                                    (''skipped'', JNum (int (skipped c))),
                                    (''errors'', JNum (int (errors c))),
                                    (''totalProcessed'', JNum (int (imported c + skipped c + errors c))),
                                    (''details'', JArr (details c)),
                                    (''message'', JStr (import_message c))]"
      using Pair
      by (auto simp: importPrompts_try_def Let_def split: sum.splits if_splits prod.splits jsval.splits option.splits)
    then show ?thesis
      using Pair Inr
      by (auto simp: importPrompts_def import_report_def is_boolean_def is_string_def is_number_def)
  qed
qed


definition empty_payload :: jsval where
  "empty_payload =
     JObj [(''version'', JStr ''1.0.0''), (''exported_at'', JStr ''2024-05-31T09:00:00.000Z''),
           (''prompts'', JObj [])]"

text \<open>
  Claim C9, as amended. For every input, savePrompt, deletePrompt, updatePromptMetadata,
  exportPrompts and importPrompts return a result object with a boolean \<open>success\<close> and a
  string \<open>message\<close>. On failure the first four carry a string \<open>error\<close>, and so does an
  import that was aborted; an import that ran through its records returns its counts
  (\<open>imported\<close>, \<open>skipped\<close>, \<open>errors\<close>, \<open>totalProcessed\<close>) and no \<open>error\<close> field, also when
  \<open>success\<close> is false.
\<close>

theorem operations_return_results:
  "uniform_result (fst (savePrompt E st promptData)) \<and>
   uniform_result (fst (deletePrompt E st promptId)) \<and>
   uniform_result (fst (updatePromptMetadata E st promptId metadata)) \<and>
   uniform_result (fst (exportPrompts E st)) \<and>
   (uniform_result (fst (importPrompts E st importData options)) \<or>
    import_report (fst (importPrompts E st importData options)))"
  using savePrompt_uniform deletePrompt_uniform updatePromptMetadata_uniform exportPrompts_uniform
    importPrompts_result
  by (intro conjI)

theorem operations_return_results_witness:
  "uniform_result (fst (savePrompt utc_env None JNull)) \<and>
   uniform_result (fst (deletePrompt utc_env None JUndefined)) \<and>
   uniform_result (fst (updatePromptMetadata utc_env (Some two_prompts) (JStr ''prompt_1'') (JNum 7))) \<and>
   uniform_result (fst (exportPrompts utc_env None)) \<and>
   (uniform_result (fst (importPrompts utc_env None (JStr ''{'') JNull)) \<or>
    import_report (fst (importPrompts utc_env None (JStr ''{'') JNull))) \<and>
   fst (savePrompt utc_env None JNull) =
     failure ''Cannot read properties of undefined (reading id)'' ''Failed to save prompt''"
proof -
  have "fst (savePrompt utc_env None JNull) =
     failure ''Cannot read properties of undefined (reading id)'' ''Failed to save prompt''"
    by code_simp
  then show ?thesis
    using operations_return_results [of utc_env None JNull JUndefined]
      operations_return_results [of utc_env "Some two_prompts" JNull "JStr ''prompt_1''" "JNum 7"]
      operations_return_results [of utc_env None JNull JUndefined JUndefined "JStr ''{''" JNull]
    by blast
qed

text \<open>
  Claim C9, as stated, asks for a string \<open>error\<close> on every failure. Importing a payload
  without records fails (\<open>success\<close> is false, nothing was processed) and the result has
  no \<open>error\<close> field.
\<close>

theorem import_failure_without_error_counterexample:
  "js_get (fst (importPrompts utc_env (Some two_prompts) empty_payload JUndefined)) ''success'' = JBool False \<and>
   js_get (fst (importPrompts utc_env (Some two_prompts) empty_payload JUndefined)) ''error'' = JUndefined \<and>
   \<not> uniform_result (fst (importPrompts utc_env (Some two_prompts) empty_payload JUndefined))"
  by code_simp


section \<open>Properties of saving from the current preset\<close>

text \<open>Validation and the limit do not depend on the identifier that is drawn.\<close>

lemma isValidISODate_fresh_id [simp]:
  "isValidISODate (E\<lparr>fresh_id := i\<rparr>) v = isValidISODate E v"
  by (simp add: isValidISODate_def cong: jsval.case_cong option.case_cong)

lemma validation_errors_fresh_id [simp]:
  "validation_errors (E\<lparr>fresh_id := i\<rparr>) p = validation_errors E p"
  by (simp add: validation_errors_def metadata_errors_def)

lemma valid_store_fresh_id [simp]: "valid_store (E\<lparr>fresh_id := i\<rparr>) qs = valid_store E qs"
  by (simp add: valid_store_def valid_record_def)

lemma maxPrompts_fresh_id [simp]: "maxPrompts (E\<lparr>fresh_id := i\<rparr>) = maxPrompts E"
  by (simp add: maxPrompts_def)

text \<open>The record saveCurrentPrompt builds is complete: createPromptData returns it as it
  is, once its name is a truthy value and its identifier is not empty.\<close>

lemma js_or_idem [simp]: "js_or (js_or a b) b = js_or a b"
  by (simp add: js_or_def)

lemma js_or_same [simp]: "js_or a a = a"
  by (simp add: js_or_def)























section \<open>Properties of export and import\<close>

text \<open>Objects given by their list of properties.\<close>

lemma spread_Nil_obj [simp]: "spread base (JObj []) = base"
  by (simp add: spread_def)

lemma spread_Cons_obj [simp]: "spread base (JObj ((k, v) # kvs)) = spread (obj_set k v base) (JObj kvs)"
  by (simp add: spread_def)

lemma obj_set_Nil [simp]: "obj_set k v [] = [(k, v)]"
  by (simp add: obj_set_def)

lemma obj_set_Cons [simp]:
  "obj_set k v ((k', v') # kvs) = (if k' = k then (k, v) # kvs else (k', v') # obj_set k v kvs)"
  by (simp add: obj_set_def)








definition overwrite_options :: jsval where
  "overwrite_options = JObj [(''overwriteExisting'', JBool True)]"











lemma isValidISODate_now_iso [simp]:
  "isValidISODate (E\<lparr>now_iso := t\<rparr>) v = isValidISODate E v"
  by (simp add: isValidISODate_def cong: jsval.case_cong option.case_cong)

lemma validation_errors_now_iso [simp]:
  "validation_errors (E\<lparr>now_iso := t\<rparr>) p = validation_errors E p"
  by (simp add: validation_errors_def metadata_errors_def)

lemma valid_store_now_iso [simp]: "valid_store (E\<lparr>now_iso := t\<rparr>) qs = valid_store E qs"
  by (simp add: valid_store_def valid_record_def)




definition export_time :: string where
  "export_time = ''2024-05-31T09:00:00.000Z''"







text \<open>The defaults are applied with \<open>||\<close>, also to a stored \<open>injection_depth\<close> of zero, which
  comes back as 4.\<close>

lemma round_trip_zero_depth_evaluation: "valid_store utc_env [(''prompt_2'', encode (persona\<lparr>p_injection_depth := 0\<rparr>))] \<and>
   snd (importPrompts utc_env (Some [(''prompt_2'', encode (persona\<lparr>p_injection_depth := 0\<rparr>))])
          (js_get (fst (exportPrompts (utc_env\<lparr>now_iso := export_time\<rparr>)
                          (Some [(''prompt_2'', encode (persona\<lparr>p_injection_depth := 0\<rparr>))]))) ''data'')
          overwrite_options) =
     Some [(''prompt_2'', stamped (now_iso utc_env) export_time persona)]"
  by code_simp

end
